theory Spec2Isabelle
  imports Complex_Main "HOL-Library.AList"
begin

section \<open>Daily Regulation Tracker: the model of \<open>scripts/main.js\<close>\<close>

text \<open>
  The class \<open>DailyTracker\<close> is embedded method by method. JavaScript strings are
  \<^typ>\<open>string\<close> (the texts met here are ASCII, one \<^typ>\<open>char\<close> per code unit), counts are
  \<^typ>\<open>nat\<close>, integers \<^typ>\<open>int\<close>, and the numbers of the arithmetic on fractions
  (percentages, random draws, temperatures) are exact rationals \<^typ>\<open>rat\<close>: the rounding
  of the platform's binary floating point is outside the model. What a method reads from
  its environment is an argument: the clock (\<open>new Date()\<close>, milliseconds since the epoch),
  the random draws (\<open>Math.random()\<close>), and the platform's \<open>JSON.parse\<close> and
  \<open>JSON.stringify\<close>.
\<close>

subsection \<open>The calendar: \<open>Date.prototype.toISOString\<close>\<close>

text \<open>
  \<open>toISOString\<close> is the platform's; it is modelled after its definition in the language
  standard: the time value is split into a day number and the time within the day, both
  in UTC, the day number into a proleptic Gregorian date, and the text is
  \<open>YYYY-MM-DDTHH:mm:ss.sssZ\<close>, the year with a sign and six digits outside 0..9999.
\<close>

definition digit :: "int \<Rightarrow> char" where
  "digit n = char_of (48 + n mod 10)"

fun pad :: "nat \<Rightarrow> int \<Rightarrow> string" where
  "pad 0 n = []"
| "pad (Suc w) n = pad w (n div 10) @ [digit n]"

definition msPerDay :: int where
  "msPerDay = 86400000"

definition Day :: "int \<Rightarrow> int" where
  "Day t = t div msPerDay"

definition TimeWithinDay :: "int \<Rightarrow> int" where
  "TimeWithinDay t = t mod msPerDay"

text \<open>Year, month (1..12) and day of the month (1..31) of a day number.\<close>

definition civil_from_days :: "int \<Rightarrow> int \<times> int \<times> int" where
  "civil_from_days z0 =
     (let z = z0 + 719468;
          era = z div 146097;
          doe = z - era * 146097;
          yoe = (doe - doe div 1460 + doe div 36524 - doe div 146096) div 365;
          doy = doe - (365 * yoe + yoe div 4 - yoe div 100);
          mp = (5 * doy + 2) div 153;
          d = doy - (153 * mp + 2) div 5 + 1;
          m = (if mp < 10 then mp + 3 else mp - 9);
          y = yoe + era * 400 + (if m \<le> 2 then 1 else 0)
      in (y, m, d))"

definition year_text :: "int \<Rightarrow> string" where
  "year_text y =
     (if 0 \<le> y \<and> y \<le> 9999 then pad 4 y
      else (if y < 0 then ''-'' else ''+'') @ pad 6 \<bar>y\<bar>)"

definition date_text :: "int \<Rightarrow> string" where
  "date_text t =
     (case civil_from_days (Day t) of
        (y, m, d) \<Rightarrow> year_text y @ ''-'' @ pad 2 m @ ''-'' @ pad 2 d)"

definition time_text :: "int \<Rightarrow> string" where
  "time_text t =
     (let ms = TimeWithinDay t
      in pad 2 (ms div 3600000) @ '':'' @ pad 2 (ms div 60000 mod 60) @ '':'' @
         pad 2 (ms div 1000 mod 60) @ ''.'' @ pad 3 (ms mod 1000))"

definition toISOString :: "int \<Rightarrow> string" where
  "toISOString t = date_text t @ ''T'' @ time_text t @ ''Z''"

text \<open>\<open>s.split(sep)[0]\<close>: the text before the first separator, all of it when there is none.\<close>

definition split_first :: "char \<Rightarrow> string \<Rightarrow> string" where
  "split_first sep s = takeWhile (\<lambda>c. c \<noteq> sep) s"

text \<open>\<open>getCurrentDateKey()\<close>, at the clock reading \<open>now\<close>.\<close>

definition getCurrentDateKey :: "int \<Rightarrow> string" where
  "getCurrentDateKey now = split_first CHR ''T'' (toISOString now)"

text \<open>
  The day key as the specification words it: today's date in the user's local time zone,
  \<open>YYYY-MM-DD\<close>. The zone is given by its offset from UTC in minutes (local time is UTC
  plus the offset).
\<close>

definition local_dayKey :: "int \<Rightarrow> int \<Rightarrow> string" where
  "local_dayKey now utcOffsetMinutes = date_text (now + utcOffsetMinutes * 60000)"

subsection \<open>The quote of the day\<close>

text \<open>
  The 32-bit operators of the language: \<open>ToInt32\<close> wraps an integer into
  \<open>-2^31 .. 2^31 - 1\<close>; \<open>x << n\<close> and \<open>x & x\<close> convert their operands with it and
  give a 32-bit result. Between them, \<open>-\<close> and \<open>+\<close> are exact (the values stay far
  below \<open>2^53\<close>).
\<close>

definition toInt32 :: "int \<Rightarrow> int" where
  "toInt32 x = (x + 2 ^ 31) mod 2 ^ 32 - 2 ^ 31"

definition shiftLeft :: "int \<Rightarrow> nat \<Rightarrow> int" where
  "shiftLeft x n = toInt32 (toInt32 x * 2 ^ (n mod 32))"

definition bitAnd_self :: "int \<Rightarrow> int" where
  "bitAnd_self x = toInt32 x"

definition charCode :: "char \<Rightarrow> int" where
  "charCode c = int (of_char c)"

text \<open>\<open>hashCode(str)\<close>: the loop over the characters, \<open>hash\<close> being the loop's variable.\<close>

fun hashCode_loop :: "int \<Rightarrow> string \<Rightarrow> int" where
  "hashCode_loop hash [] = hash"
| "hashCode_loop hash (c # str) =
     hashCode_loop (bitAnd_self ((shiftLeft hash 5 - hash) + charCode c)) str"

definition hashCode :: "string \<Rightarrow> int" where
  "hashCode str = hashCode_loop 0 str"

text \<open>The remainder operator \<open>%\<close> truncates: the result has the sign of the dividend.\<close>

definition js_rem :: "int \<Rightarrow> int \<Rightarrow> int" where
  "js_rem a b = sgn a * (\<bar>a\<bar> mod \<bar>b\<bar>)"

record quote =
  quote_text :: string
  quote_author :: string

definition quotes :: "quote list" where
  "quotes =
    [\<lparr>quote_text = ''Progress, not perfection, is the goal.'', quote_author = ''Self-Care Wisdom''\<rparr>,
     \<lparr>quote_text = ''Small steps daily lead to big changes yearly.'', quote_author = ''James Clear''\<rparr>,
     \<lparr>quote_text = ''You don't have to be perfect, you just have to be consistent.'',
      quote_author = ''Daily Motivation''\<rparr>,
     \<lparr>quote_text = ''Self-care is not selfish. You cannot serve from an empty vessel.'',
      quote_author = ''Eleanor Brown''\<rparr>,
     \<lparr>quote_text = ''The secret of getting ahead is getting started.'', quote_author = ''Mark Twain''\<rparr>,
     \<lparr>quote_text = ''Your only limit is your mind.'', quote_author = ''Motivational''\<rparr>,
     \<lparr>quote_text = ''Every accomplishment starts with the decision to try.'',
      quote_author = ''Gail Devers''\<rparr>]"

text \<open>
  \<open>fetchDailyQuote()\<close> at the clock reading \<open>now\<close>: the value the promise resolves to.
  Reading an array outside its bounds gives \<open>undefined\<close>.
\<close>

datatype quote_result = Undefined | Quote quote

definition fetchDailyQuote :: "int \<Rightarrow> quote_result" where
  "fetchDailyQuote now =
     (let dateKey = getCurrentDateKey now;
          quoteIndex = js_rem (hashCode dateKey) (int (length quotes));
          i = nat \<bar>quoteIndex\<bar>
      in if i < length quotes then Quote (quotes ! i) else Undefined)"

text \<open>
  The hash as the specification words it: \<open>hash = hash * 31 + charCode\<close>, wrapped to a
  signed 32-bit integer at each step.
\<close>

fun spec_hash_loop :: "int \<Rightarrow> string \<Rightarrow> int" where
  "spec_hash_loop hash [] = hash"
| "spec_hash_loop hash (c # str) = spec_hash_loop (toInt32 (hash * 31 + charCode c)) str"

definition spec_hash :: "string \<Rightarrow> int" where
  "spec_hash str = spec_hash_loop 0 str"

subsection \<open>Weather\<close>

text \<open>
  \<open>getWeatherCondition(code)\<close>: the chain of early returns, in the source's order. The
  codes of the weather service are integers.
\<close>

definition getWeatherCondition :: "int \<Rightarrow> string" where
  "getWeatherCondition code =
     (if code = 0 \<or> code = 1 then ''clear''
      else if code = 2 \<or> code = 3 then ''clouds''
      else if code \<ge> 51 \<and> code \<le> 65 then ''rain''
      else if code \<ge> 71 \<and> code \<le> 75 then ''snow''
      else if code = 95 then ''thunderstorm''
      else ''clear'')"

text \<open>\<open>Math.round\<close> rounds to the nearest integer, a half towards plus infinity.\<close>

definition Math_round :: "rat \<Rightarrow> int" where
  "Math_round x = \<lfloor>x + 1 / 2\<rfloor>"

definition Math_floor :: "rat \<Rightarrow> int" where
  "Math_floor x = \<lfloor>x\<rfloor>"

record weather =
  temperature :: int
  temperatureF :: int
  high :: int
  low :: int
  highF :: int
  lowF :: int
  description :: "string option"
  condition :: string
  uvIndex :: int
  humidity :: int
  location :: string

text \<open>
  \<open>getMockWeatherData(lat, lon)\<close>. The six calls of \<open>Math.random()\<close> are the arguments
  \<open>r1\<close> to \<open>r6\<close>, in the order of the calls; the place name, which the method awaits from
  \<open>getLocationName\<close>, is an argument too. An index outside the list of descriptions reads
  \<open>undefined\<close>, here \<open>None\<close>.
\<close>

definition mock_descriptions :: "string list" where
  "mock_descriptions = [''Sunny'', ''Partly Cloudy'', ''Cloudy'', ''Light Rain'']"

definition getMockWeatherData ::
  "rat \<Rightarrow> rat \<Rightarrow> rat \<Rightarrow> rat \<Rightarrow> rat \<Rightarrow> rat \<Rightarrow> string \<Rightarrow> weather" where
  "getMockWeatherData r1 r2 r3 r4 r5 r6 locationName =
     (let tempC = Math_round (18 + r1 * 15);
          tempF = Math_round ((of_int tempC * 9 / 5) + 32);
          highC = tempC + Math_round (r2 * 5 + 2);
          lowC = tempC - Math_round (r3 * 5 + 2);
          highF = Math_round ((of_int highC * 9 / 5) + 32);
          lowF = Math_round ((of_int lowC * 9 / 5) + 32);
          i = Math_floor (r4 * 4)
      in \<lparr>temperature = tempC, temperatureF = tempF, high = highC, low = lowC,
          highF = highF, lowF = lowF,
          description =
            (if 0 \<le> i \<and> i < int (length mock_descriptions)
             then Some (mock_descriptions ! nat i) else None),
          condition = ''clear'',
          uvIndex = Math_round (1 + r5 * 10),
          humidity = Math_round (40 + r6 * 40),
          location = locationName\<rparr>)"

text \<open>\<open>calculateTempPosition(current, low, high)\<close>.\<close>

definition calculateTempPosition :: "rat \<Rightarrow> rat \<Rightarrow> rat \<Rightarrow> rat" where
  "calculateTempPosition current lo hi =
     (if hi \<le> lo then 50
      else let range = hi - lo;
               position = ((current - lo) / range) * 100
           in max 5 (min 95 position))"

subsection \<open>Values, and the insertion-ordered \<open>Set\<close>\<close>

text \<open>
  The values that \<open>JSON.parse\<close> can give, and \<open>undefined\<close>. A number is a rational (the
  value of its decimal text); an object lists its properties in order.
\<close>

datatype jsval =
    JUndefined
  | JNull
  | JBool bool
  | JNum rat
  | JStr string
  | JArr "jsval list"
  | JObj "(string \<times> jsval) list"

datatype error = SyntaxError | TypeError

text \<open>
  A \<open>Set\<close> is the list of its elements in insertion order. Primitive values are equal when
  they are the same value; an array or an object is equal to itself only, and each one
  met here is a fresh one (a result of \<open>JSON.parse\<close>), so it is never found, and adding
  it appends it.
\<close>

fun is_primitive :: "jsval \<Rightarrow> bool" where
  "is_primitive (JArr _) = False"
| "is_primitive (JObj _) = False"
| "is_primitive _ = True"

definition Set_has :: "jsval \<Rightarrow> jsval list \<Rightarrow> bool" where
  "Set_has v s = (is_primitive v \<and> v \<in> set s)"

definition Set_add :: "jsval \<Rightarrow> jsval list \<Rightarrow> jsval list" where
  "Set_add v s = (if Set_has v s then s else s @ [v])"

definition Set_delete :: "jsval \<Rightarrow> jsval list \<Rightarrow> jsval list" where
  "Set_delete v s = (if is_primitive v then removeAll v s else s)"

definition Set_size :: "jsval list \<Rightarrow> nat" where
  "Set_size s = length s"

text \<open>
  \<open>new Set(v)\<close>: empty for \<open>null\<close> and \<open>undefined\<close>, the elements of an array, the
  characters of a string, and a \<open>TypeError\<close> for any other value, which is not iterable.
\<close>

fun new_Set :: "jsval \<Rightarrow> error + jsval list" where
  "new_Set JUndefined = Inr []"
| "new_Set JNull = Inr []"
| "new_Set (JArr vs) = Inr (foldl (\<lambda>s v. Set_add v s) [] vs)"
| "new_Set (JStr cs) = Inr (foldl (\<lambda>s v. Set_add v s) [] (map (\<lambda>c. JStr [c]) cs))"
| "new_Set _ = Inl TypeError"

subsection \<open>\<open>localStorage\<close>\<close>

text \<open>
  The store maps keys to texts; it is an association list read by its first entry for a
  key. \<open>Object.keys(localStorage)\<close> lists the keys. A store that refuses a write for
  lack of space is outside the model.
\<close>

type_synonym storage = "(string \<times> string) list"

definition getItem :: "string \<Rightarrow> storage \<Rightarrow> string option" where
  "getItem key ls = map_of ls key"

definition setItem :: "string \<Rightarrow> string \<Rightarrow> storage \<Rightarrow> storage" where
  "setItem key v ls = AList.update key v ls"

definition removeItem :: "string \<Rightarrow> storage \<Rightarrow> storage" where
  "removeItem key ls = AList.delete key ls"

definition Object_keys :: "storage \<Rightarrow> string list" where
  "Object_keys ls = map fst ls"

subsection \<open>The tracker\<close>

record task =
  task_id :: string
  task_icon :: string
  task_text :: string

record schedule_section =
  section_title :: string
  section_icon :: string
  section_tasks :: "task list"

text \<open>The schedule is an object: its sections by time of day, in the order of the keys.\<close>

type_synonym schedule = "(string \<times> schedule_section) list"

text \<open>
  The page, as far as the methods below touch it. A task's row: whether the \<open>li\<close> has the
  class \<open>completed\<close>, whether its checkbox has the class \<open>checked\<close>, and the checkbox's
  \<open>innerHTML\<close>. The rows are listed in document order under their \<open>data-task-id\<close>, and
  \<open>document.querySelector\<close> finds the first one with a given id. The celebrations and
  milestone messages shown so far are the list \<open>effects\<close>; a milestone message is named
  by its type (\<open>great\<close>, \<open>amazing\<close>, \<open>perfect\<close>).
\<close>

record task_elem =
  elem_completed :: bool
  checkbox_checked :: bool
  checkbox_innerHTML :: string

datatype celebration = Basic | Big | Mega

datatype effect = Celebration celebration | MilestoneMessage string

text \<open>
  The progress bar: the width in percent, the background, and the two numbers of the
  text \<open>completedCount/totalTasks completed\<close>.
\<close>

record progress =
  bar_width :: rat
  bar_background :: string
  progress_text :: "nat \<times> nat"

text \<open>
  The fields of a \<open>DailyTracker\<close>, together with the store and the page it works on.
  \<open>schedule\<close> is \<open>None\<close> for \<open>null\<close>.
\<close>

record tracker =
  schedule :: "schedule option"
  completedTasks :: "jsval list"
  storageKey :: string
  currentCoordinates :: jsval
  localStorage :: storage
  taskElements :: "(string \<times> task_elem) list"
  progressBar :: "progress option"
  effects :: "effect list"

definition defaultCoordinates :: jsval where
  "defaultCoordinates =
     JObj [(''latitude'', JNum (39697722 / 1000000)), (''longitude'', JNum (- 104895528 / 1000000))]"

text \<open>
  A method that can throw returns the exception or its result, and the state it leaves
  behind in either case.

  \<open>getStoredCoordinates()\<close>; \<open>parse\<close> is \<open>JSON.parse\<close>, \<open>None\<close> where it throws its
  \<open>SyntaxError\<close>. An empty text is falsy, as \<open>null\<close> is.
\<close>

definition getStoredCoordinates :: "(string \<Rightarrow> jsval option) \<Rightarrow> int \<Rightarrow> storage \<Rightarrow> error + jsval" where
  "getStoredCoordinates parse now ls =
     (let today = getCurrentDateKey now
      in case getItem (''weather_location_'' @ today) ls of
           None \<Rightarrow> Inr defaultCoordinates
         | Some stored \<Rightarrow>
             if stored = [] then Inr defaultCoordinates
             else (case parse stored of
                     None \<Rightarrow> Inl SyntaxError
                   | Some v \<Rightarrow> Inr v))"

definition setStoredCoordinates :: "(jsval \<Rightarrow> string) \<Rightarrow> int \<Rightarrow> jsval \<Rightarrow> tracker \<Rightarrow> tracker" where
  "setStoredCoordinates stringify now coordinates st =
     (let today = getCurrentDateKey now
      in st\<lparr>localStorage := setItem (''weather_location_'' @ today) (stringify coordinates) (localStorage st),
            currentCoordinates := coordinates\<rparr>)"

text \<open>
  The constructor, up to its call of \<open>init()\<close>: the tracker on the store \<open>ls\<close> at the
  clock reading \<open>now\<close>, with an empty page.
\<close>

definition DailyTracker :: "(string \<Rightarrow> jsval option) \<Rightarrow> int \<Rightarrow> storage \<Rightarrow> error + tracker" where
  "DailyTracker parse now ls =
     (case getStoredCoordinates parse now ls of
        Inl e \<Rightarrow> Inl e
      | Inr coordinates \<Rightarrow>
          Inr \<lparr>schedule = None, completedTasks = [],
               storageKey = ''dailyTracker_'' @ getCurrentDateKey now,
               currentCoordinates = coordinates, localStorage = ls,
               taskElements = [], progressBar = None, effects = []\<rparr>)"

text \<open>\<open>loadCompletedTasks()\<close>.\<close>

definition loadCompletedTasks :: "(string \<Rightarrow> jsval option) \<Rightarrow> tracker \<Rightarrow> (error + unit) \<times> tracker" where
  "loadCompletedTasks parse st =
     (case getItem (storageKey st) (localStorage st) of
        None \<Rightarrow> (Inr (), st)
      | Some saved \<Rightarrow>
          if saved = [] then (Inr (), st)
          else (case parse saved of
                  None \<Rightarrow> (Inl SyntaxError, st)
                | Some v \<Rightarrow>
                    (case new_Set v of
                       Inl e \<Rightarrow> (Inl e, st)
                     | Inr s \<Rightarrow> (Inr (), st\<lparr>completedTasks := s\<rparr>))))"

text \<open>\<open>saveCompletedTasks()\<close>; \<open>stringify\<close> is \<open>JSON.stringify\<close>.\<close>

definition saveCompletedTasks :: "(jsval \<Rightarrow> string) \<Rightarrow> tracker \<Rightarrow> tracker" where
  "saveCompletedTasks stringify st =
     st\<lparr>localStorage := setItem (storageKey st) (stringify (JArr (completedTasks st))) (localStorage st)\<rparr>"

text \<open>
  \<open>createTaskItem(task)\<close> and \<open>renderSchedule()\<close>: the rows of the page. The checkbox's
  \<open>innerHTML\<close> is recorded without the white space of the template around it.
\<close>

definition createTaskItem :: "jsval list \<Rightarrow> task \<Rightarrow> string \<times> task_elem" where
  "createTaskItem completed t =
     (let isCompleted = Set_has (JStr (task_id t)) completed
      in (task_id t,
          \<lparr>elem_completed = isCompleted, checkbox_checked = isCompleted,
           checkbox_innerHTML = (if isCompleted then ''<i class=\"fas fa-check\"></i>'' else [])\<rparr>))"

definition renderSchedule :: "tracker \<Rightarrow> tracker" where
  "renderSchedule st =
     (case schedule st of
        None \<Rightarrow> st
      | Some sch \<Rightarrow>
          st\<lparr>taskElements :=
               concat (map (\<lambda>(timeOfDay, sec). map (createTaskItem (completedTasks st)) (section_tasks sec)) sch)\<rparr>)"

text \<open>
  The count of all tasks, \<open>Object.values(this.schedule).reduce(...)\<close>, and the percentage
  \<open>totalTasks > 0 ? (completedCount / totalTasks) * 100 : 0\<close>, which \<open>updateProgress\<close> and
  \<open>celebrateTaskCompletion\<close> both compute.
\<close>

definition totalTasks :: "schedule \<Rightarrow> nat" where
  "totalTasks sch = foldl (\<lambda>n sec. n + length (section_tasks sec)) 0 (map snd sch)"

definition percentage_of :: "nat \<Rightarrow> nat \<Rightarrow> rat" where
  "percentage_of completedCount totalCount =
     (if totalCount > 0 then (of_nat completedCount / of_nat totalCount) * 100 else 0)"

text \<open>
  \<open>celebrateTaskCompletion(taskElement)\<close>. \<open>Object.values(null)\<close> throws a \<open>TypeError\<close>.
  The animations themselves are not modelled, only which one is started.
\<close>

definition celebrateTaskCompletion :: "tracker \<Rightarrow> (error + unit) \<times> tracker" where
  "celebrateTaskCompletion st =
     (case schedule st of
        None \<Rightarrow> (Inl TypeError, st)
      | Some sch \<Rightarrow>
          let percentage = percentage_of (Set_size (completedTasks st)) (totalTasks sch);
              tier = (if percentage \<ge> 80 then Mega
                      else if percentage \<ge> 50 then Big
                      else Basic);
              milestone = (if percentage = 50 then [MilestoneMessage ''great'']
                           else if percentage = 80 then [MilestoneMessage ''amazing'']
                           else if percentage = 100 then [MilestoneMessage ''perfect'']
                           else [])
          in (Inr (), st\<lparr>effects := effects st @ [Celebration tier] @ milestone\<rparr>))"

text \<open>\<open>updateProgress()\<close>, on a page that has the progress bar and its text.\<close>

definition updateProgress :: "tracker \<Rightarrow> tracker" where
  "updateProgress st =
     (case schedule st of
        None \<Rightarrow> st
      | Some sch \<Rightarrow>
          let totalCount = totalTasks sch;
              completedCount = Set_size (completedTasks st);
              percentage = percentage_of completedCount totalCount;
              background =
                (if percentage = 100 then ''linear-gradient(90deg, #00b894 0%, #00a085 100%)''
                 else if percentage \<ge> 75 then ''linear-gradient(90deg, #fdcb6e 0%, #e17055 100%)''
                 else if percentage \<ge> 50 then ''linear-gradient(90deg, #74b9ff 0%, #0984e3 100%)''
                 else ''linear-gradient(90deg, #fd79a8 0%, #e84393 100%)'')
          in st\<lparr>progressBar := Some \<lparr>bar_width = percentage, bar_background = background,
                                      progress_text = (completedCount, totalCount)\<rparr>\<rparr>)"

text \<open>
  \<open>toggleTask\<close> looks its row up with the selector text \<open>[data-task-id="..."]\<close>, the id
  spliced in between the quotes as it is. When every character of the id is plain (no
  double quote, no backslash, no control character), the text is an attribute selector
  whose quoted value is the id, and \<open>querySelector\<close> finds the first row with this id, the
  rows being the only elements with the attribute. For any other id the text reads as
  something else: a syntax error, which \<open>querySelector\<close> throws, or another selector, which
  may find another element.
\<close>

definition plain_char :: "char \<Rightarrow> bool" where
  "plain_char c = (c \<noteq> CHR 0x22 \<and> c \<noteq> CHR 0x5C \<and> (32::nat) \<le> of_char c)"

definition selector_safe :: "string \<Rightarrow> bool" where
  "selector_safe taskId = list_all plain_char taskId"

text \<open>
  \<open>toggleTask(taskId)\<close>. For an id that is not \<open>selector_safe\<close>, what the method does is
  decided by the platform's reading of the selector text and by the elements of the page
  outside the rows: it is the argument \<open>other\<close>. For a safe id: when no row has the id,
  \<open>querySelector\<close> gives \<open>null\<close> and the next line throws a \<open>TypeError\<close>. The method has
  no \<open>return\<close> statement: a call that ends normally gives \<open>undefined\<close>.
\<close>

definition toggleTask ::
  "(string \<Rightarrow> tracker \<Rightarrow> (error + jsval) \<times> tracker) \<Rightarrow> (jsval \<Rightarrow> string) \<Rightarrow> string \<Rightarrow> tracker
     \<Rightarrow> (error + jsval) \<times> tracker" where
  "toggleTask other stringify taskId st =
     (if \<not> selector_safe taskId then other taskId st
      else case map_of (taskElements st) taskId of
        None \<Rightarrow> (Inl TypeError, st)
      | Some taskElement \<Rightarrow>
          if Set_has (JStr taskId) (completedTasks st) then
            let st1 = st\<lparr>completedTasks := Set_delete (JStr taskId) (completedTasks st),
                         taskElements := AList.update taskId
                           (taskElement\<lparr>elem_completed := False, checkbox_checked := False,
                                         checkbox_innerHTML := []\<rparr>) (taskElements st)\<rparr>
            in (Inr JUndefined, updateProgress (saveCompletedTasks stringify st1))
          else
            let st1 = st\<lparr>completedTasks := Set_add (JStr taskId) (completedTasks st),
                         taskElements := AList.update taskId
                           (taskElement\<lparr>elem_completed := True, checkbox_checked := True,
                                         checkbox_innerHTML := ''<i class=\"fas fa-check\"></i>''\<rparr>)
                           (taskElements st)\<rparr>
            in (case celebrateTaskCompletion st1 of
                  (Inl e, st2) \<Rightarrow> (Inl e, st2)
                | (Inr _, st2) \<Rightarrow> (Inr JUndefined, updateProgress (saveCompletedTasks stringify st2))))"

subsection \<open>Day rollover\<close>

definition startsWith :: "string \<Rightarrow> string \<Rightarrow> bool" where
  "startsWith s p = (take (length p) s = p)"

text \<open>\<open>s.replace(pat, rep)\<close> with a text as pattern replaces its first occurrence.\<close>

fun replace_first :: "string \<Rightarrow> string \<Rightarrow> string \<Rightarrow> string" where
  "replace_first pat rep [] = (if pat = [] then rep else [])"
| "replace_first pat rep (c # s) =
     (if startsWith (c # s) pat then rep @ drop (length pat) (c # s)
      else c # replace_first pat rep s)"

text \<open>\<open>resetLocationToDefault()\<close>: the loop over the keys of the store, then the reset.\<close>

definition resetLocationToDefault :: "int \<Rightarrow> tracker \<Rightarrow> tracker" where
  "resetLocationToDefault now st =
     (let keys = Object_keys (localStorage st);
          ls = fold (\<lambda>key ls.
                  if startsWith key ''weather_location_'' \<and>
                     key \<noteq> ''weather_location_'' @ getCurrentDateKey now
                  then removeItem key ls else ls) keys (localStorage st)
      in st\<lparr>localStorage := ls, currentCoordinates := defaultCoordinates\<rparr>)"

text \<open>
  \<open>setupMidnightRefresh()\<close> computes the delay of its timeout in local time: the same
  time tomorrow (\<open>setDate\<close>), put back to the start of that day (\<open>setHours(0, 0, 0, 0)\<close>),
  minus the clock reading. The zone is given by its offset from UTC in minutes, taken
  constant over the two days.
\<close>

definition msUntilMidnight :: "int \<Rightarrow> int \<Rightarrow> int" where
  "msUntilMidnight now utcOffsetMinutes =
     (let localNow = now + utcOffsetMinutes * 60000;
          tomorrow = Day (localNow + msPerDay) * msPerDay - utcOffsetMinutes * 60000
      in tomorrow - now)"

text \<open>
  The two callbacks that \<open>setupMidnightRefresh()\<close> installs, run at the clock reading
  \<open>now\<close>: the timeout set for the next local midnight, and the check made every minute.
  The flag says whether the page is reloaded.
\<close>

definition midnightTimeout :: "int \<Rightarrow> tracker \<Rightarrow> tracker \<times> bool" where
  "midnightTimeout now st = (resetLocationToDefault now st, True)"

definition minuteInterval :: "int \<Rightarrow> tracker \<Rightarrow> tracker \<times> bool" where
  "minuteInterval now st =
     (let currentDateKey = getCurrentDateKey now
      in if currentDateKey \<noteq> replace_first ''dailyTracker_'' [] (storageKey st)
         then (resetLocationToDefault now st, True)
         else (st, False))"

subsection \<open>The celebration rules as the specification words them\<close>

text \<open>
  The tier by the intervals \<open><50\<close>, \<open>[50,80)\<close>, \<open>>=80\<close>, and the milestone message at
  exactly 50, 80 and 100.
\<close>

definition spec_tier :: "rat \<Rightarrow> celebration" where
  "spec_tier p = (if p < 50 then Basic else if p < 80 then Big else Mega)"

definition spec_milestone :: "rat \<Rightarrow> effect list" where
  "spec_milestone p =
     (if p = 50 then [MilestoneMessage ''great'']
      else if p = 80 then [MilestoneMessage ''amazing'']
      else if p = 100 then [MilestoneMessage ''perfect'']
      else [])"

subsection \<open>JSON texts of lists of identifiers\<close>

text \<open>
  Where a concrete tracker is run, \<open>JSON.stringify\<close> and \<open>JSON.parse\<close> are needed on
  concrete texts. These two functions are the platform's on lists of strings that need
  no escaping: \<open>stringify_ids\<close> writes such a list as \<open>["a","b"]\<close>, and \<open>parse_ids\<close> reads
  exactly these texts and rejects every other one. They stand for the platform's functions
  only at such lists and at texts that are no JSON at all; the general theorems below
  hold for every \<open>parse\<close> and \<open>stringify\<close>.
\<close>

definition json_string :: "string \<Rightarrow> string" where
  "json_string s = CHR 0x22 # s @ [CHR 0x22]"

fun join_commas :: "string list \<Rightarrow> string" where
  "join_commas [] = []"
| "join_commas [x] = x"
| "join_commas (x # y # ys) = x @ '','' @ join_commas (y # ys)"

fun stringify_elem :: "jsval \<Rightarrow> string" where
  "stringify_elem (JStr s) = json_string s"
| "stringify_elem _ = ''null''"

fun stringify_ids :: "jsval \<Rightarrow> string" where
  "stringify_ids (JArr vs) = ''['' @ join_commas (map stringify_elem vs) @ '']''"
| "stringify_ids _ = ''null''"

fun parse_elems :: "nat \<Rightarrow> string \<Rightarrow> jsval list option" where
  "parse_elems 0 s = None"
| "parse_elems (Suc n) s =
     (if s \<noteq> [] \<and> hd s = CHR 0x22 then
        let body = takeWhile plain_char (tl s);
            rest = drop (length body) (tl s)
        in if rest \<noteq> [] \<and> hd rest = CHR 0x22 then
             (if tl rest = '']'' then Some [JStr body]
              else if tl rest \<noteq> [] \<and> hd (tl rest) = CHR '','' then
                map_option ((#) (JStr body)) (parse_elems n (tl (tl rest)))
              else None)
           else None
      else None)"

definition parse_ids :: "string \<Rightarrow> jsval option" where
  "parse_ids s =
     (if s = ''[]'' then Some (JArr [])
      else if s \<noteq> [] \<and> hd s = CHR ''['' then map_option JArr (parse_elems (length s) (tl s))
      else None)"

subsection \<open>Sample trackers\<close>

text \<open>
  A schedule of two tasks, and trackers of the session of 2024-01-01 (the clock reading
  \<open>sample_now\<close> is 02:00 UTC of that day) on several stores.
\<close>

definition sample_schedule :: schedule where
  "sample_schedule =
     [(''morning'',
       \<lparr>section_title = ''Morning'', section_icon = ''fa-sun'',
        section_tasks =
          [\<lparr>task_id = ''a'', task_icon = ''fa-bed'', task_text = ''Make bed''\<rparr>,
           \<lparr>task_id = ''b'', task_icon = ''fa-tint'', task_text = ''Drink water''\<rparr>]\<rparr>)]"

definition sample_now :: int where
  "sample_now = 1704074400000"

definition fresh_tracker :: "storage \<Rightarrow> tracker" where
  "fresh_tracker ls =
     \<lparr>schedule = None, completedTasks = [], storageKey = ''dailyTracker_2024-01-01'',
      currentCoordinates = defaultCoordinates, localStorage = ls,
      taskElements = [], progressBar = None, effects = []\<rparr>"

definition sample_tracker :: "jsval list \<Rightarrow> storage \<Rightarrow> tracker" where
  "sample_tracker completed ls =
     renderSchedule ((fresh_tracker ls)\<lparr>schedule := Some sample_schedule, completedTasks := completed\<rparr>)"

text \<open>
  The sample runs toggle the plain ids \<open>a\<close> and \<open>b\<close> only; for the argument \<open>other\<close> of
  \<open>toggleTask\<close>, which such a run never consults, they take the outcome of a selector
  text that is a syntax error.
\<close>

definition selector_error :: "string \<Rightarrow> tracker \<Rightarrow> (error + jsval) \<times> tracker" where
  "selector_error taskId st = (Inl SyntaxError, st)"

definition unchecked_elem :: task_elem where
  "unchecked_elem = \<lparr>elem_completed = False, checkbox_checked = False, checkbox_innerHTML = []\<rparr>"

definition malformed_tasks :: storage where
  "malformed_tasks = [(''dailyTracker_2024-01-01'', ''{'')]"

definition malformed_location :: storage where
  "malformed_location = [(''weather_location_2024-01-01'', ''{'')]"

definition synced_ab :: tracker where
  "synced_ab =
     sample_tracker [JStr ''a'', JStr ''b''] [(''dailyTracker_2024-01-01'', ''[\"a\",\"b\"]'')]"

definition synced_empty :: tracker where
  "synced_empty = sample_tracker [] [(''dailyTracker_2024-01-01'', ''[]'')]"

text \<open>
  A session of 2024-01-01 in a zone nine hours ahead of UTC: the page is opened at 21:00
  local time (\<open>rollover_setup\<close>, 12:00 UTC), and \<open>rollover_now\<close> is the local midnight
  that follows (15:00 UTC). The store holds the coordinate chosen on 2024-01-01, one left
  from the day before, and the day's completion record.
\<close>

definition rollover_setup :: int where
  "rollover_setup = 1704110400000"

definition rollover_now :: int where
  "rollover_now = 1704121200000"

definition evening_tracker :: tracker where
  "evening_tracker =
     (sample_tracker [JStr ''a'']
        [(''weather_location_2023-12-31'', ''{\"latitude\":48.85,\"longitude\":2.35}''),
         (''weather_location_2024-01-01'', ''{\"latitude\":35.68,\"longitude\":139.69}''),
         (''dailyTracker_2024-01-01'', ''[\"a\"]'')])
     \<lparr>currentCoordinates := JObj [(''latitude'', JNum (3568 / 100)), (''longitude'', JNum (13969 / 100))]\<rparr>"

section \<open>Auxiliary facts\<close>

subsection \<open>The calendar\<close>

lemma digit_neq_T: "digit n \<noteq> CHR ''T''"
proof
  assume "digit n = CHR ''T''"
  then have "(of_char (digit n) :: int) = of_char CHR ''T''"
    by simp
  then have "(48 + n mod 10) mod 256 = 84"
    by (simp add: digit_def)
  moreover have "0 \<le> n mod 10" and "n mod 10 < 10"
    by simp_all
  ultimately show False
    by presburger
qed

lemma pad_no_T: "CHR ''T'' \<notin> set (pad w n)"
  by (induction w arbitrary: n) (simp_all add: digit_neq_T [symmetric])

lemma length_pad: "length (pad w n) = w"
  by (induction w arbitrary: n) simp_all

lemma date_text_no_T: "CHR ''T'' \<notin> set (date_text t)"
  by (simp add: date_text_def year_text_def pad_no_T split: prod.splits)

lemma takeWhile_before: "x \<notin> set xs \<Longrightarrow> takeWhile (\<lambda>c. c \<noteq> x) (xs @ x # ys) = xs"
  by (induction xs) auto

lemma getCurrentDateKey_utc: "getCurrentDateKey now = date_text now"
  using takeWhile_before [OF date_text_no_T, of now]
  by (simp add: getCurrentDateKey_def split_first_def toISOString_def)

lemma getCurrentDateKey_length:
  "civil_from_days (Day now) = (y, m, d) \<Longrightarrow> 0 \<le> y \<Longrightarrow> y \<le> 9999 \<Longrightarrow>
   length (getCurrentDateKey now) = 10"
  by (simp add: getCurrentDateKey_utc date_text_def year_text_def length_pad)

lemma local_dayKey_shift: "local_dayKey now off = getCurrentDateKey (now + off * 60000)"
  by (simp add: getCurrentDateKey_utc local_dayKey_def)

subsection \<open>The hash\<close>

lemma toInt32_cong:
  assumes "x mod 2 ^ 32 = y mod 2 ^ 32"
  shows "toInt32 x = toInt32 y"
proof -
  have "(x + 2 ^ 31) mod 2 ^ 32 = (y + 2 ^ 31) mod 2 ^ 32"
    by (rule mod_add_cong [OF assms refl])
  then show ?thesis
    unfolding toInt32_def by (rule arg_cong [where f = "\<lambda>z. z - 2 ^ 31"])
qed

lemma toInt32_mod: "toInt32 x mod 2 ^ 32 = x mod 2 ^ 32"
proof -
  have "((x + 2 ^ 31) mod 2 ^ 32 - 2 ^ 31) mod 2 ^ 32 = (x + 2 ^ 31 - 2 ^ 31) mod 2 ^ 32"
    by (rule mod_diff_left_eq)
  then show ?thesis
    unfolding toInt32_def by (simp only: add_diff_cancel_right')
qed

lemma toInt32_range: "- (2 ^ 31) \<le> toInt32 x \<and> toInt32 x < 2 ^ 31"
  unfolding toInt32_def by simp

lemma hash_step: "bitAnd_self ((shiftLeft hash 5 - hash) + c) = toInt32 (hash * 31 + c)"
proof -
  have e: "shiftLeft hash 5 = toInt32 (toInt32 hash * 2 ^ 5)"
    by (simp add: shiftLeft_def)
  have "toInt32 hash * 2 ^ 5 mod 2 ^ 32 = hash * 2 ^ 5 mod 2 ^ 32"
    by (rule mod_mult_cong [OF toInt32_mod refl])
  then have b: "shiftLeft hash 5 mod 2 ^ 32 = hash * 2 ^ 5 mod 2 ^ 32"
    unfolding e by (simp only: toInt32_mod)
  have "(shiftLeft hash 5 - hash) mod 2 ^ 32 = (hash * 2 ^ 5 - hash) mod 2 ^ 32"
    by (rule mod_diff_cong [OF b refl])
  then have c: "(shiftLeft hash 5 - hash + c) mod 2 ^ 32 = (hash * 2 ^ 5 - hash + c) mod 2 ^ 32"
    by (rule mod_add_cong [OF _ refl])
  have d: "hash * 2 ^ 5 - hash + c = hash * 31 + c"
    by simp
  have "(shiftLeft hash 5 - hash + c) mod 2 ^ 32 = (hash * 31 + c) mod 2 ^ 32"
    using c unfolding d .
  then show ?thesis
    unfolding bitAnd_self_def by (rule toInt32_cong)
qed

lemma hashCode_loop_spec: "hashCode_loop h s = spec_hash_loop h s"
  by (induction s arbitrary: h) (simp_all add: hash_step)

lemma hashCode_loop_range:
  "- (2 ^ 31) \<le> h \<and> h < 2 ^ 31 \<Longrightarrow> - (2 ^ 31) \<le> hashCode_loop h s \<and> hashCode_loop h s < 2 ^ 31"
proof (induction s arbitrary: h)
  case Nil
  then show ?case by simp
next
  case (Cons c s)
  show ?case
    unfolding hashCode_loop.simps bitAnd_self_def
    by (rule Cons.IH) (rule toInt32_range)
qed

lemma js_rem_abs: "0 < b \<Longrightarrow> \<bar>js_rem a b\<bar> = \<bar>a\<bar> mod b"
  unfolding js_rem_def by (cases "a = 0") (simp_all add: abs_mult)

lemma length_quotes: "length quotes = 7"
  by (simp add: quotes_def)

lemma fetchDailyQuote_index:
  "fetchDailyQuote now = Quote (quotes ! nat (\<bar>hashCode (getCurrentDateKey now)\<bar> mod 7))"
proof -
  have "\<bar>hashCode (getCurrentDateKey now)\<bar> mod 7 < 7"
    by simp
  then have "nat (\<bar>hashCode (getCurrentDateKey now)\<bar> mod 7) < 7"
    by linarith
  then show ?thesis
    by (simp add: fetchDailyQuote_def Let_def length_quotes js_rem_abs)
qed

subsection \<open>Progress and the set of completed tasks\<close>

lemma totalTasks_foldl:
  "foldl (\<lambda>n sec. n + length (section_tasks sec)) a xs = a + (\<Sum>sec\<leftarrow>xs. length (section_tasks sec))"
  by (induction xs arbitrary: a) simp_all

lemma totalTasks_sum: "totalTasks sch = (\<Sum>sec\<leftarrow>map snd sch. length (section_tasks sec))"
  by (simp add: totalTasks_def totalTasks_foldl)

lemma percentage_of_none: "percentage_of 0 n = 0"
  by (simp add: percentage_of_def)

lemma percentage_of_all: "0 < n \<Longrightarrow> percentage_of n n = 100"
  by (simp add: percentage_of_def)

lemma updateProgress_fields [simp]:
  "completedTasks (updateProgress st) = completedTasks st"
  "localStorage (updateProgress st) = localStorage st"
  "storageKey (updateProgress st) = storageKey st"
  "effects (updateProgress st) = effects st"
  "taskElements (updateProgress st) = taskElements st"
  "schedule (updateProgress st) = schedule st"
  "currentCoordinates (updateProgress st) = currentCoordinates st"
  by (simp_all add: updateProgress_def Let_def split: option.splits)

lemma saveCompletedTasks_fields [simp]:
  "completedTasks (saveCompletedTasks f st) = completedTasks st"
  "storageKey (saveCompletedTasks f st) = storageKey st"
  "effects (saveCompletedTasks f st) = effects st"
  "taskElements (saveCompletedTasks f st) = taskElements st"
  "schedule (saveCompletedTasks f st) = schedule st"
  "currentCoordinates (saveCompletedTasks f st) = currentCoordinates st"
  by (simp_all add: saveCompletedTasks_def)

lemma getItem_setItem: "getItem k (setItem k' v ls) = (if k = k' then Some v else getItem k ls)"
  by (simp add: getItem_def setItem_def update_conv')

lemma saveCompletedTasks_getItem:
  "getItem k (localStorage (saveCompletedTasks f st)) =
     (if k = storageKey st then Some (f (JArr (completedTasks st))) else getItem k (localStorage st))"
  by (simp add: saveCompletedTasks_def getItem_setItem)

lemma updateProgress_bar:
  "schedule st = Some sch \<Longrightarrow>
   \<exists>p. progressBar (updateProgress st) = Some p \<and>
       bar_width p = percentage_of (Set_size (completedTasks st)) (totalTasks sch) \<and>
       progress_text p = (Set_size (completedTasks st), totalTasks sch)"
  by (simp add: updateProgress_def Let_def)

lemma celebrate_None: "schedule st = None \<Longrightarrow> celebrateTaskCompletion st = (Inl TypeError, st)"
  by (simp add: celebrateTaskCompletion_def)

lemma celebrate_Some:
  "schedule st = Some sch \<Longrightarrow>
   celebrateTaskCompletion st =
     (Inr (), st\<lparr>effects := effects st @
        [Celebration (spec_tier (percentage_of (Set_size (completedTasks st)) (totalTasks sch)))] @
        spec_milestone (percentage_of (Set_size (completedTasks st)) (totalTasks sch))\<rparr>)"
  by (simp add: celebrateTaskCompletion_def Let_def spec_tier_def spec_milestone_def not_less)

lemma quoted_id_not_safe: "CHR 0x22 \<in> set taskId \<Longrightarrow> \<not> selector_safe taskId"
  by (auto simp: selector_safe_def list_all_iff plain_char_def)

lemma toggleTask_other:
  "\<not> selector_safe taskId \<Longrightarrow> toggleTask other f taskId st = other taskId st"
  by (simp add: toggleTask_def)


lemma toggleTask_uncheck:
  assumes "selector_safe taskId" and "map_of (taskElements st) taskId = Some el"
    and "Set_has (JStr taskId) (completedTasks st)"
  shows "toggleTask other f taskId st =
     (Inr JUndefined, updateProgress (saveCompletedTasks f
        (st\<lparr>completedTasks := Set_delete (JStr taskId) (completedTasks st),
            taskElements := AList.update taskId
               (el\<lparr>elem_completed := False, checkbox_checked := False, checkbox_innerHTML := []\<rparr>)
               (taskElements st)\<rparr>)))"
  using assms by (simp add: toggleTask_def Let_def)

lemma toggleTask_check:
  assumes "selector_safe taskId" and "map_of (taskElements st) taskId = Some el"
    and "\<not> Set_has (JStr taskId) (completedTasks st)"
    and "schedule st = Some sch"
  shows "toggleTask other f taskId st =
     (Inr JUndefined, updateProgress (saveCompletedTasks f
        (st\<lparr>completedTasks := Set_add (JStr taskId) (completedTasks st),
            taskElements := AList.update taskId
               (el\<lparr>elem_completed := True, checkbox_checked := True,
                   checkbox_innerHTML := ''<i class=\"fas fa-check\"></i>''\<rparr>)
               (taskElements st),
            effects := effects st @
              [Celebration (spec_tier (percentage_of (Set_size (Set_add (JStr taskId) (completedTasks st))) (totalTasks sch)))] @
              spec_milestone (percentage_of (Set_size (Set_add (JStr taskId) (completedTasks st))) (totalTasks sch))\<rparr>)))"
  using assms by (simp add: toggleTask_def Let_def celebrate_Some)

lemma toggleTask_check_unloaded:
  assumes "selector_safe taskId" and "map_of (taskElements st) taskId = Some el"
    and "\<not> Set_has (JStr taskId) (completedTasks st)"
    and "schedule st = None"
  shows "fst (toggleTask other f taskId st) = Inl TypeError"
  using assms by (simp add: toggleTask_def Let_def celebrate_None)

lemma Set_has_add: "Set_has v (Set_add w s) = (Set_has v s \<or> (is_primitive v \<and> v = w))"
  by (auto simp: Set_has_def Set_add_def)

lemma Set_has_delete: "is_primitive w \<Longrightarrow> Set_has v (Set_delete w s) = (Set_has v s \<and> v \<noteq> w)"
  by (auto simp: Set_has_def Set_delete_def)


lemma toggleTask_snd_fields:
  assumes "selector_safe taskId" and "map_of (taskElements st) taskId = Some el"
    and "schedule st = Some sch"
  shows "fst (toggleTask other f taskId st) = Inr JUndefined"
    and "schedule (snd (toggleTask other f taskId st)) = Some sch"
    and "storageKey (snd (toggleTask other f taskId st)) = storageKey st"
    and "\<exists>el'. map_of (taskElements (snd (toggleTask other f taskId st))) taskId = Some el'"
    and "completedTasks (snd (toggleTask other f taskId st)) =
           (if Set_has (JStr taskId) (completedTasks st)
            then Set_delete (JStr taskId) (completedTasks st)
            else Set_add (JStr taskId) (completedTasks st))"
    and "getItem (storageKey st) (localStorage (snd (toggleTask other f taskId st))) =
           Some (f (JArr (completedTasks (snd (toggleTask other f taskId st)))))"
  using assms
  by (cases "Set_has (JStr taskId) (completedTasks st)";
      simp add: toggleTask_check toggleTask_uncheck update_conv' saveCompletedTasks_getItem)+

subsection \<open>The store at rollover\<close>

lemma fold_removeItem:
  "map_of (fold (\<lambda>key ls. if P key then removeItem key ls else ls) keys ls) k =
     (if k \<in> set keys \<and> P k then None else map_of ls k)"
  by (induction keys arbitrary: ls) (auto simp: removeItem_def delete_conv')

lemma resetLocationToDefault_getItem:
  "getItem k (localStorage (resetLocationToDefault now st)) =
     (if startsWith k ''weather_location_'' \<and> k \<noteq> ''weather_location_'' @ getCurrentDateKey now
      then None else getItem k (localStorage st))"
proof -
  have "k \<notin> set (map fst (localStorage st)) \<Longrightarrow> map_of (localStorage st) k = None"
    by (simp add: map_of_eq_None_iff)
  then show ?thesis
    by (auto simp: resetLocationToDefault_def Let_def getItem_def fold_removeItem Object_keys_def)
qed

lemma not_weather_key: "\<not> startsWith (''dailyTracker_'' @ day) ''weather_location_''"
  by (simp add: startsWith_def)

lemma replace_first_prefix: "pat \<noteq> [] \<Longrightarrow> replace_first pat rep (pat @ s) = rep @ s"
  by (cases pat) (simp_all add: startsWith_def)

subsection \<open>Rounding\<close>

lemma Math_round_ge: "of_int k \<le> x \<Longrightarrow> k \<le> Math_round x"
  unfolding Math_round_def by (simp add: le_floor_iff)

subsection \<open>The sample trackers\<close>

lemma sample_tracker_schedule: "schedule (sample_tracker completed ls) = Some sample_schedule"
  by (simp add: sample_tracker_def renderSchedule_def fresh_tracker_def)

lemma sample_tracker_completed: "completedTasks (sample_tracker completed ls) = completed"
  by (simp add: sample_tracker_def renderSchedule_def fresh_tracker_def)

lemma sample_tracker_element:
  "\<not> Set_has (JStr ''a'') completed \<Longrightarrow>
   map_of (taskElements (sample_tracker completed ls)) ''a'' = Some unchecked_elem"
  by (simp add: sample_tracker_def renderSchedule_def fresh_tracker_def sample_schedule_def
      createTaskItem_def unchecked_elem_def)

lemma safe_a: "selector_safe ''a''"
  by (simp add: selector_safe_def plain_char_def)

lemma sample_now_key: "getCurrentDateKey sample_now = ''2024-01-01''"
  by code_simp

section \<open>Properties\<close>

subsection \<open>Loading persisted state\<close>

text \<open>
  C1, as the code has it. For a tracker just constructed, the set of completed tasks is
  empty, and \<open>loadCompletedTasks\<close> returns normally and leaves the tracker as it is when
  no value, or the empty text, is stored under its key; \<open>getStoredCoordinates\<close> then
  returns the default coordinate. When the stored text is not empty and \<open>JSON.parse\<close>
  rejects it, neither method recovers: the \<open>SyntaxError\<close> reaches the caller. This holds
  for every day key (every clock reading) and every parser.
\<close>

theorem load_absent_or_malformed:
  assumes "DailyTracker parse now ls = Inr st"
  shows "completedTasks st = [] \<and>
         (getItem (storageKey st) (localStorage st) = None \<or>
          getItem (storageKey st) (localStorage st) = Some []
            \<longrightarrow> loadCompletedTasks parse st = (Inr (), st)) \<and>
         (\<forall>saved. getItem (storageKey st) (localStorage st) = Some saved \<and> saved \<noteq> [] \<and> parse saved = None
            \<longrightarrow> loadCompletedTasks parse st = (Inl SyntaxError, st)) \<and>
         (getItem (''weather_location_'' @ getCurrentDateKey now') ls' = None \<or>
          getItem (''weather_location_'' @ getCurrentDateKey now') ls' = Some []
            \<longrightarrow> getStoredCoordinates parse now' ls' = Inr defaultCoordinates) \<and>
         (\<forall>stored. getItem (''weather_location_'' @ getCurrentDateKey now') ls' = Some stored \<and>
                   stored \<noteq> [] \<and> parse stored = None
            \<longrightarrow> getStoredCoordinates parse now' ls' = Inl SyntaxError)"
proof -
  have "completedTasks st = []"
    using assms by (auto simp: DailyTracker_def split: sum.splits)
  then show ?thesis
    by (auto simp: loadCompletedTasks_def getStoredCoordinates_def Let_def)
qed

theorem load_absent_or_malformed_witness:
  "DailyTracker parse_ids sample_now malformed_tasks = Inr (fresh_tracker malformed_tasks) \<and>
   DailyTracker parse_ids sample_now [] = Inr (fresh_tracker []) \<and>
   loadCompletedTasks parse_ids (fresh_tracker []) = (Inr (), fresh_tracker []) \<and>
   completedTasks (fresh_tracker []) = [] \<and>
   getStoredCoordinates parse_ids sample_now [] = Inr defaultCoordinates \<and>
   loadCompletedTasks parse_ids (fresh_tracker malformed_tasks) =
     (Inl SyntaxError, fresh_tracker malformed_tasks) \<and>
   getStoredCoordinates parse_ids sample_now malformed_location = Inl SyntaxError"
proof -
  have c1: "DailyTracker parse_ids sample_now malformed_tasks = Inr (fresh_tracker malformed_tasks)"
    by code_simp
  have c2: "DailyTracker parse_ids sample_now [] = Inr (fresh_tracker [])"
    by code_simp
  have p: "parse_ids ''{'' = None"
    by code_simp
  have g1: "getItem (storageKey (fresh_tracker [])) (localStorage (fresh_tracker [])) = None"
    by (simp add: fresh_tracker_def getItem_def)
  have g2: "getItem (storageKey (fresh_tracker malformed_tasks)) (localStorage (fresh_tracker malformed_tasks)) =
      Some ''{''"
    by (simp add: fresh_tracker_def getItem_def malformed_tasks_def)
  have g3: "getItem (''weather_location_'' @ getCurrentDateKey sample_now) [] = None"
    by (simp add: getItem_def)
  have g4: "getItem (''weather_location_'' @ getCurrentDateKey sample_now) malformed_location = Some ''{''"
    by (simp add: getItem_def malformed_location_def sample_now_key)
  note a = load_absent_or_malformed [OF c2, of sample_now "[]"]
  note b = load_absent_or_malformed [OF c1, of sample_now malformed_location]
  have 1: "loadCompletedTasks parse_ids (fresh_tracker []) = (Inr (), fresh_tracker [])"
    using a g1 by blast
  have 2: "completedTasks (fresh_tracker []) = []"
    using a by blast
  have 3: "getStoredCoordinates parse_ids sample_now [] = Inr defaultCoordinates"
    using a g3 by blast
  have 4: "loadCompletedTasks parse_ids (fresh_tracker malformed_tasks) =
     (Inl SyntaxError, fresh_tracker malformed_tasks)"
    using b g2 p by blast
  have 5: "getStoredCoordinates parse_ids sample_now malformed_location = Inl SyntaxError"
    using b g4 p by blast
  show ?thesis
    by (intro conjI c1 c2 1 2 3 4 5)
qed

text \<open>
  The claim as stated, that a stored value that fails to parse gives the empty set (the
  default coordinate) and that the load never throws, fails on the stored text \<open>{\<close>.
\<close>

theorem load_throws_on_malformed:
  "getItem ''dailyTracker_2024-01-01'' malformed_tasks = Some ''{'' \<and>
   parse_ids ''{'' = None \<and>
   DailyTracker parse_ids sample_now malformed_tasks = Inr (fresh_tracker malformed_tasks) \<and>
   loadCompletedTasks parse_ids (fresh_tracker malformed_tasks) =
     (Inl SyntaxError, fresh_tracker malformed_tasks) \<and>
   getStoredCoordinates parse_ids sample_now malformed_location = Inl SyntaxError"
  by code_simp

subsection \<open>The day key\<close>

text \<open>
  C2. At 02:00 UTC on 2024-01-01 the day key is \<open>2024-01-01\<close>; in a zone seven hours
  behind UTC it is then 19:00 on 2023-12-31, and today's date in local time is
  \<open>2023-12-31\<close>. The key is the UTC date at every clock reading
  (\<open>getCurrentDateKey_utc\<close>), and has ten characters for the years 0 to 9999
  (\<open>getCurrentDateKey_length\<close>).
\<close>

theorem dayKey_is_utc_not_local:
  "getCurrentDateKey 1704074400000 = ''2024-01-01'' \<and>
   local_dayKey 1704074400000 (- 420) = ''2023-12-31''"
  by code_simp

subsection \<open>The progress percentage\<close>

text \<open>
  C3. For every loaded schedule and set of completed tasks, the percentage that
  \<open>updateProgress\<close> writes is \<open>completedCount / totalTaskCount * 100\<close>, where
  \<open>totalTaskCount\<close> is the sum of the sections' task counts and \<open>completedCount\<close> the size
  of the set, and 0 when \<open>totalTaskCount\<close> is 0; it is 0 when nothing is completed and 100
  when all of \<open>N > 0\<close> tasks are.
\<close>

theorem updateProgress_percentage:
  assumes "schedule st = Some sch"
  shows "\<exists>p. progressBar (updateProgress st) = Some p \<and>
           bar_width p =
             (let totalTaskCount = (\<Sum>sec\<leftarrow>map snd sch. length (section_tasks sec));
                  completedCount = Set_size (completedTasks st)
              in if totalTaskCount = 0 then 0
                 else of_nat completedCount / of_nat totalTaskCount * 100) \<and>
           (Set_size (completedTasks st) = 0 \<longrightarrow> bar_width p = 0) \<and>
           (0 < Set_size (completedTasks st) \<and>
            Set_size (completedTasks st) = (\<Sum>sec\<leftarrow>map snd sch. length (section_tasks sec))
              \<longrightarrow> bar_width p = 100)"
proof -
  obtain p where p: "progressBar (updateProgress st) = Some p"
    and w: "bar_width p = percentage_of (Set_size (completedTasks st)) (totalTasks sch)"
    using updateProgress_bar [OF assms] by blast
  have a: "bar_width p =
      (let totalTaskCount = (\<Sum>sec\<leftarrow>map snd sch. length (section_tasks sec));
           completedCount = Set_size (completedTasks st)
       in if totalTaskCount = 0 then 0
          else of_nat completedCount / of_nat totalTaskCount * 100)"
    by (simp add: w percentage_of_def totalTasks_sum Let_def)
  have b: "Set_size (completedTasks st) = 0 \<longrightarrow> bar_width p = 0"
    by (simp add: w percentage_of_none)
  have c: "0 < Set_size (completedTasks st) \<and>
      Set_size (completedTasks st) = (\<Sum>sec\<leftarrow>map snd sch. length (section_tasks sec))
        \<longrightarrow> bar_width p = 100"
    using percentage_of_all [of "totalTasks sch"] by (auto simp: w totalTasks_sum)
  show ?thesis
    by (rule exI [of _ p]) (intro conjI p a b c)
qed

theorem updateProgress_percentage_witness:
  "schedule (sample_tracker [] []) = Some sample_schedule \<and>
   schedule (sample_tracker [JStr ''a''] []) = Some sample_schedule \<and>
   schedule (sample_tracker [JStr ''a'', JStr ''b''] []) = Some sample_schedule \<and>
   (\<exists>p. progressBar (updateProgress (sample_tracker [] [])) = Some p \<and> bar_width p = 0) \<and>
   (\<exists>p. progressBar (updateProgress (sample_tracker [JStr ''a''] [])) = Some p \<and> bar_width p = 50) \<and>
   (\<exists>p. progressBar (updateProgress (sample_tracker [JStr ''a'', JStr ''b''] [])) = Some p \<and>
        bar_width p = 100)"
proof -
  note h = sample_tracker_schedule
  have none: "Set_size (completedTasks (sample_tracker [] [])) = 0"
    by (simp add: sample_tracker_completed Set_size_def)
  have all: "0 < Set_size (completedTasks (sample_tracker [JStr ''a'', JStr ''b''] [])) \<and>
      Set_size (completedTasks (sample_tracker [JStr ''a'', JStr ''b''] [])) =
        (\<Sum>sec\<leftarrow>map snd sample_schedule. length (section_tasks sec))"
    by (simp add: sample_tracker_completed Set_size_def sample_schedule_def)
  have 0: "\<exists>p. progressBar (updateProgress (sample_tracker [] [])) = Some p \<and> bar_width p = 0"
    using updateProgress_percentage [OF h, of "[]" "[]"] none by blast
  have 100: "\<exists>p. progressBar (updateProgress (sample_tracker [JStr ''a'', JStr ''b''] [])) = Some p \<and>
        bar_width p = 100"
    using updateProgress_percentage [OF h, of "[JStr ''a'', JStr ''b'']" "[]"] all by blast
  obtain p where p: "progressBar (updateProgress (sample_tracker [JStr ''a''] [])) = Some p"
    and w: "bar_width p =
             (let totalTaskCount = (\<Sum>sec\<leftarrow>map snd sample_schedule. length (section_tasks sec));
                  completedCount = Set_size (completedTasks (sample_tracker [JStr ''a''] []))
              in if totalTaskCount = 0 then 0
                 else of_nat completedCount / of_nat totalTaskCount * 100)"
    using updateProgress_percentage [OF h, of "[JStr ''a'']" "[]"] by blast
  have "bar_width p = 50"
    unfolding w by (simp add: sample_schedule_def sample_tracker_completed Set_size_def)
  with p have 50: "\<exists>p. progressBar (updateProgress (sample_tracker [JStr ''a''] [])) = Some p \<and>
      bar_width p = 50"
    by blast
  show ?thesis
    by (intro conjI h 0 50 100)
qed

subsection \<open>Toggling a task\<close>

text \<open>
  C4, as the code has it. For every task id of plain characters (no double quote, no
  backslash, no control character: the ids that the selector text quotes as they are)
  that has a row on the page, and with a schedule loaded when the id is not yet
  completed, \<open>toggleTask\<close> flips the id's membership in the set of completed tasks, leaves
  every other membership as it was, writes the updated set to the store under the
  session's key before it returns, and returns \<open>undefined\<close>.
\<close>

theorem toggleTask_flips_and_persists:
  assumes "selector_safe taskId" and "map_of (taskElements st) taskId = Some el"
    and "Set_has (JStr taskId) (completedTasks st) \<or> schedule st \<noteq> None"
  shows "\<exists>st'. toggleTask other f taskId st = (Inr JUndefined, st') \<and>
           Set_has (JStr taskId) (completedTasks st') = (\<not> Set_has (JStr taskId) (completedTasks st)) \<and>
           (\<forall>v. v \<noteq> JStr taskId \<longrightarrow> Set_has v (completedTasks st') = Set_has v (completedTasks st)) \<and>
           storageKey st' = storageKey st \<and>
           getItem (storageKey st) (localStorage st') = Some (f (JArr (completedTasks st')))"
proof (cases "Set_has (JStr taskId) (completedTasks st)")
  case True
  show ?thesis
    unfolding toggleTask_uncheck [OF assms(1) assms(2) True]
    using True by (auto simp: saveCompletedTasks_getItem Set_has_delete)
next
  case False
  with assms(3) obtain sch where sch: "schedule st = Some sch" by auto
  show ?thesis
    unfolding toggleTask_check [OF assms(1) assms(2) False sch]
    using False by (auto simp: saveCompletedTasks_getItem Set_has_add)
qed

theorem toggleTask_flips_and_persists_witness:
  "selector_safe ''a'' \<and>
   map_of (taskElements (sample_tracker [] [])) ''a'' = Some unchecked_elem \<and>
   schedule (sample_tracker [] []) \<noteq> None \<and>
   (\<exists>st'. toggleTask selector_error stringify_ids ''a'' (sample_tracker [] []) = (Inr JUndefined, st') \<and>
          Set_has (JStr ''a'') (completedTasks st') \<and>
          getItem ''dailyTracker_2024-01-01'' (localStorage st') =
            Some (stringify_ids (JArr (completedTasks st'))))"
proof -
  have no: "\<not> Set_has (JStr ''a'') (completedTasks (sample_tracker [] []))"
    by (simp add: sample_tracker_def renderSchedule_def fresh_tracker_def Set_has_def)
  have h1: "map_of (taskElements (sample_tracker [] [])) ''a'' = Some unchecked_elem"
    by (rule sample_tracker_element) (simp add: Set_has_def)
  have h2: "schedule (sample_tracker [] []) \<noteq> None"
    by (simp add: sample_tracker_schedule)
  have k: "storageKey (sample_tracker [] []) = ''dailyTracker_2024-01-01''"
    by (simp add: sample_tracker_def renderSchedule_def fresh_tracker_def)
  from toggleTask_flips_and_persists [OF safe_a h1 disjI2 [OF h2], of selector_error stringify_ids]
  obtain st' where "toggleTask selector_error stringify_ids ''a'' (sample_tracker [] []) = (Inr JUndefined, st')"
    and "Set_has (JStr ''a'') (completedTasks st') =
           (\<not> Set_has (JStr ''a'') (completedTasks (sample_tracker [] [])))"
    and "getItem (storageKey (sample_tracker [] [])) (localStorage st') =
           Some (stringify_ids (JArr (completedTasks st')))"
    by blast
  with no k h1 h2 safe_a show ?thesis by auto
qed

text \<open>
  The claim as stated, that the call returns the new membership state, fails: completing
  task \<open>a\<close> returns \<open>undefined\<close>, not \<open>true\<close>.
\<close>

theorem toggleTask_returns_undefined:
  "fst (toggleTask selector_error stringify_ids ''a'' (sample_tracker [] [])) = Inr JUndefined \<and>
   fst (toggleTask selector_error stringify_ids ''a'' (sample_tracker [] [])) \<noteq> Inr (JBool True) \<and>
   Set_has (JStr ''a'') (completedTasks (snd (toggleTask selector_error stringify_ids ''a'' (sample_tracker [] []))))"
  by code_simp

text \<open>
  C5, as the code has it. For an id of plain characters (as in C4), with the task's row
  on the page and a schedule loaded, toggling the id twice returns normally both times and
  restores the membership of every value; the
  set then lists its elements as before when the id was not a member, and with the id
  moved to the end when it was. The stored text is the text of that list; so when the
  stored text was that of the set before and the id was not a member, the stored value
  after the two calls equals the stored value before.
\<close>

theorem toggleTask_twice:
  assumes safe: "selector_safe taskId"
    and el: "map_of (taskElements st) taskId = Some el" and sch: "schedule st = Some sch"
  shows "let st1 = snd (toggleTask other f taskId st); st2 = snd (toggleTask other f taskId st1) in
         fst (toggleTask other f taskId st) = Inr JUndefined \<and> fst (toggleTask other f taskId st1) = Inr JUndefined \<and>
         (\<forall>v. Set_has v (completedTasks st2) = Set_has v (completedTasks st)) \<and>
         completedTasks st2 =
           (if Set_has (JStr taskId) (completedTasks st)
            then removeAll (JStr taskId) (completedTasks st) @ [JStr taskId]
            else completedTasks st) \<and>
         getItem (storageKey st) (localStorage st2) = Some (f (JArr (completedTasks st2))) \<and>
         (\<not> Set_has (JStr taskId) (completedTasks st) \<and>
          getItem (storageKey st) (localStorage st) = Some (f (JArr (completedTasks st)))
            \<longrightarrow> getItem (storageKey st) (localStorage st2) = getItem (storageKey st) (localStorage st))"
proof -
  define st1 where "st1 = snd (toggleTask other f taskId st)"
  define st2 where "st2 = snd (toggleTask other f taskId st1)"
  note one = toggleTask_snd_fields [OF safe el sch, of other f, folded st1_def]
  obtain el' where el': "map_of (taskElements st1) taskId = Some el'"
    using one(4) by blast
  note two = toggleTask_snd_fields [OF safe el' one(2), of other f, folded st2_def]
  have cs: "completedTasks st2 =
           (if Set_has (JStr taskId) (completedTasks st)
            then removeAll (JStr taskId) (completedTasks st) @ [JStr taskId]
            else completedTasks st)"
    unfolding two(5) one(5)
    by (auto simp: Set_has_def Set_add_def Set_delete_def)
  have mem: "\<forall>v. Set_has v (completedTasks st2) = Set_has v (completedTasks st)"
    unfolding cs by (auto simp: Set_has_def)
  have per: "getItem (storageKey st) (localStorage st2) = Some (f (JArr (completedTasks st2)))"
    using two(6) one(3) by simp
  have "fst (toggleTask other f taskId st) = Inr JUndefined \<and> fst (toggleTask other f taskId st1) = Inr JUndefined \<and>
         (\<forall>v. Set_has v (completedTasks st2) = Set_has v (completedTasks st)) \<and>
         completedTasks st2 =
           (if Set_has (JStr taskId) (completedTasks st)
            then removeAll (JStr taskId) (completedTasks st) @ [JStr taskId]
            else completedTasks st) \<and>
         getItem (storageKey st) (localStorage st2) = Some (f (JArr (completedTasks st2))) \<and>
         (\<not> Set_has (JStr taskId) (completedTasks st) \<and>
          getItem (storageKey st) (localStorage st) = Some (f (JArr (completedTasks st)))
            \<longrightarrow> getItem (storageKey st) (localStorage st2) = getItem (storageKey st) (localStorage st))"
    using one(1) two(1) cs mem per by simp
  then show ?thesis
    unfolding st1_def st2_def Let_def .
qed

theorem toggleTask_twice_witness:
  "selector_safe ''a'' \<and>
   map_of (taskElements synced_empty) ''a'' = Some unchecked_elem \<and>
   schedule synced_empty = Some sample_schedule \<and>
   completedTasks (snd (toggleTask selector_error stringify_ids ''a'' (snd (toggleTask selector_error stringify_ids ''a'' synced_empty)))) =
     completedTasks synced_empty \<and>
   getItem ''dailyTracker_2024-01-01''
     (localStorage (snd (toggleTask selector_error stringify_ids ''a'' (snd (toggleTask selector_error stringify_ids ''a'' synced_empty))))) =
     getItem ''dailyTracker_2024-01-01'' (localStorage synced_empty)"
proof -
  have no: "\<not> Set_has (JStr ''a'') (completedTasks synced_empty)"
    by (simp add: synced_empty_def sample_tracker_def renderSchedule_def fresh_tracker_def Set_has_def)
  have h1: "map_of (taskElements synced_empty) ''a'' = Some unchecked_elem"
    unfolding synced_empty_def by (rule sample_tracker_element) (simp add: Set_has_def)
  have h2: "schedule synced_empty = Some sample_schedule"
    unfolding synced_empty_def by (rule sample_tracker_schedule)
  have k: "storageKey synced_empty = ''dailyTracker_2024-01-01''"
    by (simp add: synced_empty_def sample_tracker_def renderSchedule_def fresh_tracker_def)
  have s: "getItem ''dailyTracker_2024-01-01'' (localStorage synced_empty) =
      Some (stringify_ids (JArr (completedTasks synced_empty)))"
    by (simp add: synced_empty_def sample_tracker_def renderSchedule_def fresh_tracker_def getItem_def)
  show ?thesis
    using toggleTask_twice [OF safe_a h1 h2, of selector_error stringify_ids] no h1 h2 s safe_a
    by (simp add: Let_def k)
qed

text \<open>
  The claim as stated, with the order of the persisted list, fails: with \<open>a\<close> and \<open>b\<close>
  completed in this order and stored as \<open>["a","b"]\<close>, toggling \<open>a\<close> twice stores
  \<open>["b","a"]\<close>.
\<close>

theorem toggleTask_twice_reorders:
  "getItem ''dailyTracker_2024-01-01'' (localStorage synced_ab) = Some ''[\"a\",\"b\"]'' \<and>
   completedTasks synced_ab = [JStr ''a'', JStr ''b''] \<and>
   fst (toggleTask selector_error stringify_ids ''a'' synced_ab) = Inr JUndefined \<and>
   fst (toggleTask selector_error stringify_ids ''a'' (snd (toggleTask selector_error stringify_ids ''a'' synced_ab))) = Inr JUndefined \<and>
   getItem ''dailyTracker_2024-01-01''
     (localStorage (snd (toggleTask selector_error stringify_ids ''a'' (snd (toggleTask selector_error stringify_ids ''a'' synced_ab))))) =
     Some ''[\"b\",\"a\"]'' \<and>
   getItem ''dailyTracker_2024-01-01''
     (localStorage (snd (toggleTask selector_error stringify_ids ''a'' (snd (toggleTask selector_error stringify_ids ''a'' synced_ab))))) \<noteq>
     getItem ''dailyTracker_2024-01-01'' (localStorage synced_ab)"
  by code_simp

subsection \<open>Celebrations\<close>



subsection \<open>The quote of the day\<close>

text \<open>
  C7. The hash of every text follows the recurrence \<open>hash = hash * 31 + charCode\<close>
  wrapped to a signed 32-bit integer at each step; the quote selected is the one at index
  \<open>abs(hash) mod 7\<close> of the catalog of seven quotes, and two calls under the same day key
  select the same quote.
\<close>

theorem quote_selection:
  "hashCode str = spec_hash str \<and>
   - (2 ^ 31) \<le> hashCode str \<and> hashCode str < 2 ^ 31 \<and>
   length quotes = 7 \<and>
   nat (\<bar>hashCode (getCurrentDateKey now)\<bar> mod 7) < length quotes \<and>
   fetchDailyQuote now = Quote (quotes ! nat (\<bar>hashCode (getCurrentDateKey now)\<bar> mod 7)) \<and>
   (getCurrentDateKey now = getCurrentDateKey now' \<longrightarrow> fetchDailyQuote now = fetchDailyQuote now')"
proof -
  have "hashCode str = spec_hash str"
    by (simp add: hashCode_def spec_hash_def hashCode_loop_spec)
  moreover have "- (2 ^ 31) \<le> hashCode str \<and> hashCode str < 2 ^ 31"
    unfolding hashCode_def by (rule hashCode_loop_range) simp
  moreover have "nat (\<bar>hashCode (getCurrentDateKey now)\<bar> mod 7) < length quotes"
    unfolding length_quotes
    using pos_mod_bound [of 7 "\<bar>hashCode (getCurrentDateKey now)\<bar>"] by linarith
  ultimately show ?thesis
    by (simp add: fetchDailyQuote_index length_quotes)
qed

theorem quote_selection_witness:
  "getCurrentDateKey 1704074400000 = getCurrentDateKey 1704074400001 \<and>
   fetchDailyQuote 1704074400000 = fetchDailyQuote 1704074400001 \<and>
   hashCode ''2024-01-01'' = spec_hash ''2024-01-01'' \<and>
   hashCode ''2024-01-01'' = - 613341632 \<and>
   fetchDailyQuote 1704074400000 = Quote (quotes ! 1)"
proof -
  have h: "getCurrentDateKey 1704074400000 = getCurrentDateKey 1704074400001"
    by code_simp
  have v: "hashCode ''2024-01-01'' = - 613341632"
    by code_simp
  have q: "fetchDailyQuote 1704074400000 = Quote (quotes ! 1)"
    by code_simp
  from quote_selection [of "''2024-01-01''" 1704074400000 1704074400001] h v q
  show ?thesis by blast
qed

subsection \<open>Weather condition categories\<close>

text \<open>
  C8. For every numeric weather code, \<open>getWeatherCondition\<close> returns clear for the codes 0
  and 1, clouds for 2 and 3, rain for 51 through 65, snow for 71 through 75, thunderstorm
  for 95, and clear for any other code.
\<close>

theorem getWeatherCondition_mapping:
  "(code = 0 \<or> code = 1 \<longrightarrow> getWeatherCondition code = ''clear'') \<and>
   (code = 2 \<or> code = 3 \<longrightarrow> getWeatherCondition code = ''clouds'') \<and>
   (51 \<le> code \<and> code \<le> 65 \<longrightarrow> getWeatherCondition code = ''rain'') \<and>
   (71 \<le> code \<and> code \<le> 75 \<longrightarrow> getWeatherCondition code = ''snow'') \<and>
   (code = 95 \<longrightarrow> getWeatherCondition code = ''thunderstorm'') \<and>
   (code \<notin> {0, 1, 2, 3, 95} \<and> \<not> (51 \<le> code \<and> code \<le> 65) \<and> \<not> (71 \<le> code \<and> code \<le> 75)
      \<longrightarrow> getWeatherCondition code = ''clear'')"
  by (auto simp: getWeatherCondition_def)

theorem getWeatherCondition_mapping_witness:
  "getWeatherCondition 0 = ''clear'' \<and> getWeatherCondition 2 = ''clouds'' \<and>
   getWeatherCondition 61 = ''rain'' \<and> getWeatherCondition 71 = ''snow'' \<and>
   getWeatherCondition 95 = ''thunderstorm'' \<and> getWeatherCondition 999 = ''clear''"
  using getWeatherCondition_mapping [of 0] getWeatherCondition_mapping [of 2]
    getWeatherCondition_mapping [of 61] getWeatherCondition_mapping [of 71]
    getWeatherCondition_mapping [of 95] getWeatherCondition_mapping [of 999]
  by simp

subsection \<open>Day rollover\<close>

text \<open>
  The reset action, which the midnight timeout always runs and the minute check runs when
  the key differs from the session's, by the key that \<open>getCurrentDateKey\<close> gives when it
  runs: afterwards the store holds no coordinate record under any other key, the record
  under this key and every completion record are as they were, and the tracker's
  coordinate is the default one.
\<close>

lemma resetLocationToDefault_by_key:
  "let st' = resetLocationToDefault now st; today = getCurrentDateKey now in
     (\<forall>key. startsWith key ''weather_location_'' \<and> key \<noteq> ''weather_location_'' @ today
        \<longrightarrow> getItem key (localStorage st') = None) \<and>
     getItem (''weather_location_'' @ today) (localStorage st') =
       getItem (''weather_location_'' @ today) (localStorage st) \<and>
     (\<forall>day. getItem (''dailyTracker_'' @ day) (localStorage st') =
            getItem (''dailyTracker_'' @ day) (localStorage st)) \<and>
     currentCoordinates st' = defaultCoordinates \<and>
     midnightTimeout now st = (st', True) \<and>
     (storageKey st = ''dailyTracker_'' @ day0 \<and> day0 \<noteq> today \<longrightarrow> minuteInterval now st = (st', True))"
proof -
  let ?st' = "resetLocationToDefault now st" and ?today = "getCurrentDateKey now"
  have a: "\<forall>key. startsWith key ''weather_location_'' \<and> key \<noteq> ''weather_location_'' @ ?today
        \<longrightarrow> getItem key (localStorage ?st') = None"
    by (simp only: resetLocationToDefault_getItem) simp
  have b: "getItem (''weather_location_'' @ ?today) (localStorage ?st') =
       getItem (''weather_location_'' @ ?today) (localStorage st)"
    by (simp only: resetLocationToDefault_getItem) simp
  have c: "\<forall>day. getItem (''dailyTracker_'' @ day) (localStorage ?st') =
            getItem (''dailyTracker_'' @ day) (localStorage st)"
    by (simp only: resetLocationToDefault_getItem not_weather_key) simp
  have d: "currentCoordinates ?st' = defaultCoordinates"
    by (simp add: resetLocationToDefault_def Let_def)
  have e: "midnightTimeout now st = (?st', True)"
    by (simp add: midnightTimeout_def)
  have f: "storageKey st = ''dailyTracker_'' @ day0 \<and> day0 \<noteq> ?today
      \<longrightarrow> minuteInterval now st = (?st', True)"
  proof
    assume h: "storageKey st = ''dailyTracker_'' @ day0 \<and> day0 \<noteq> ?today"
    have "replace_first ''dailyTracker_'' [] (storageKey st) = day0"
      using replace_first_prefix [of "''dailyTracker_''" "[]" day0] h by simp
    then show "minuteInterval now st = (?st', True)"
      using h by (auto simp: minuteInterval_def Let_def)
  qed
  show ?thesis
    unfolding Let_def by (intro conjI a b c d e f)
qed

lemma getStoredCoordinates_stored:
  "getItem (''weather_location_'' @ getCurrentDateKey now) ls = Some stored \<Longrightarrow> stored \<noteq> [] \<Longrightarrow>
   parse stored = Some v \<Longrightarrow> getStoredCoordinates parse now ls = Inr v"
  by (simp add: getStoredCoordinates_def Let_def)

text \<open>
  C9. In a zone nine hours ahead of UTC, a page opened at 21:00 on 2024-01-01 sets its
  timeout for the local midnight three hours later. At that midnight the day is
  2024-01-02 in local time, but the key is still \<open>2024-01-01\<close>: the reset that the
  timeout runs removes the coordinate record of 2023-12-31 and keeps the one of
  2024-01-01, the day that has ended, which the tracker made by the reload reads back
  (\<open>getStoredCoordinates_stored\<close>); the minute check at the same moment does nothing. The
  completion record is untouched and the tracker's coordinate is the default one, as the
  claim says.
\<close>

theorem rollover_keeps_old_day_coordinate:
  "msUntilMidnight rollover_setup 540 = rollover_now - rollover_setup \<and>
   local_dayKey rollover_setup 540 = ''2024-01-01'' \<and>
   local_dayKey rollover_now 540 = ''2024-01-02'' \<and>
   getCurrentDateKey rollover_now = ''2024-01-01'' \<and>
   getItem ''weather_location_2024-01-01'' (localStorage evening_tracker) =
     Some ''{\"latitude\":35.68,\"longitude\":139.69}'' \<and>
   getItem ''weather_location_2024-01-01''
     (localStorage (fst (midnightTimeout rollover_now evening_tracker))) =
     Some ''{\"latitude\":35.68,\"longitude\":139.69}'' \<and>
   getItem ''weather_location_2023-12-31''
     (localStorage (fst (midnightTimeout rollover_now evening_tracker))) = None \<and>
   getItem ''dailyTracker_2024-01-01''
     (localStorage (fst (midnightTimeout rollover_now evening_tracker))) = Some ''[\"a\"]'' \<and>
   currentCoordinates (fst (midnightTimeout rollover_now evening_tracker)) = defaultCoordinates \<and>
   snd (midnightTimeout rollover_now evening_tracker) \<and>
   minuteInterval rollover_now evening_tracker = (evening_tracker, False)"
  by code_simp

subsection \<open>Mock weather\<close>

text \<open>
  C10. For all random draws (they are never negative), the mock snapshot has
  \<open>low \<le> temperature - 2\<close> and \<open>high \<ge> temperature + 2\<close>, hence \<open>low < high\<close>, and
  \<open>calculateTempPosition\<close> on it takes the branch of the clamped position, not the
  degenerate one.
\<close>

theorem getMockWeatherData_range:
  assumes "0 \<le> r2" and "0 \<le> r3"
  shows "let w = getMockWeatherData r1 r2 r3 r4 r5 r6 locationName in
           low w \<le> temperature w - 2 \<and> high w \<ge> temperature w + 2 \<and> low w < high w \<and>
           calculateTempPosition (of_int (temperature w)) (of_int (low w)) (of_int (high w)) =
             max 5 (min 95 ((of_int (temperature w) - of_int (low w)) /
                            (of_int (high w) - of_int (low w)) * 100))"
proof -
  have h: "2 \<le> Math_round (r2 * 5 + 2)"
    using assms(1) by (intro Math_round_ge) simp
  have l: "2 \<le> Math_round (r3 * 5 + 2)"
    using assms(2) by (intro Math_round_ge) simp
  show ?thesis
    using h l by (simp add: getMockWeatherData_def Let_def calculateTempPosition_def)
qed

theorem getMockWeatherData_range_witness:
  "(0::rat) \<le> 0 \<and>
   low (getMockWeatherData (1 / 2) 0 0 0 0 0 ''Denver, CO'')
     \<le> temperature (getMockWeatherData (1 / 2) 0 0 0 0 0 ''Denver, CO'') - 2 \<and>
   temperature (getMockWeatherData (1 / 2) 0 0 0 0 0 ''Denver, CO'') + 2
     \<le> high (getMockWeatherData (1 / 2) 0 0 0 0 0 ''Denver, CO'') \<and>
   low (getMockWeatherData (1 / 2) 0 0 0 0 0 ''Denver, CO'')
     < high (getMockWeatherData (1 / 2) 0 0 0 0 0 ''Denver, CO'')"
proof -
  have h: "(0::rat) \<le> 0" by simp
  show ?thesis
    using getMockWeatherData_range [OF h h, of "1 / 2" 0 0 0 "''Denver, CO''"] h
    by (simp add: Let_def)
qed

end
